theory Spec2Isabelle
  imports Complex_Main
begin

section \<open>JavaScript primitives used by the store\<close>

text \<open>
  Numbers that the program only uses as integers (timestamps in milliseconds, counters,
  page numbers) are \<open>int\<close>. A draw of \<^verbatim>\<open>Math.random()\<close> is a \<open>real\<close> handed to the
  function that consumes it; the runtime only ever supplies values in \<open>[0, 1)\<close>.
  Strings are \<open>string\<close>: lists of code units below 256.
\<close>

text \<open>
  \<^verbatim>\<open>Array.prototype.slice(start, end)\<close>: a negative index counts from the end of the
  array, both indices are clamped to the array, and an empty range gives the empty array.
\<close>

definition js_slice :: "int \<Rightarrow> int \<Rightarrow> 'a list \<Rightarrow> 'a list" where
  "js_slice start end xs =
     (let len = int (length xs);
          k = (if start < 0 then max (len + start) 0 else min start len);
          final = (if end < 0 then max (len + end) 0 else min end len)
      in take (nat (final - k)) (drop (nat k) xs))"

text \<open>\<^verbatim>\<open>Array.prototype.find\<close>: the first element that satisfies the predicate.\<close>

fun js_find :: "('a \<Rightarrow> bool) \<Rightarrow> 'a list \<Rightarrow> 'a option" where
  "js_find P [] = None"
| "js_find P (x # xs) = (if P x then Some x else js_find P xs)"

text \<open>The decimal rendering of an integer inside a template literal.\<close>

fun digits10 :: "nat \<Rightarrow> string" where
  "digits10 n =
     (if n < 10 then [''0123456789'' ! n]
      else digits10 (n div 10) @ [''0123456789'' ! (n mod 10)])"

declare digits10.simps [simp del]

definition show_int :: "int \<Rightarrow> string" where
  "show_int i = (if i < 0 then ''-'' @ digits10 (nat (- i)) else digits10 (nat i))"

text \<open>
  The white space of \<^verbatim>\<open>String.prototype.trim\<close> and of the regular expression class
  \<^verbatim>\<open>\s\<close>, among the code units below 256: TAB, LF, VT, FF, CR, SPACE and NBSP.
\<close>

definition is_space :: "char \<Rightarrow> bool" where
  "is_space c = (of_char c \<in> {9, 10, 11, 12, 13, 32, 160 :: nat})"

definition trim :: "string \<Rightarrow> string" where
  "trim s = rev (dropWhile is_space (rev (dropWhile is_space s)))"

section \<open>Views: the objects handed to a reader\<close>

text \<open>
  What the store returns is serialised as JSON, so a view is a JavaScript object: an
  ordered list of keys with their values.
\<close>

datatype jsval =
    JNum int
  | JStr string
  | JArr "jsval list"
  | JObj "(string \<times> jsval) list"

type_synonym jsobj = "(string \<times> jsval) list"

text \<open>\<^verbatim>\<open>obj[k]\<close>: the value under a key, if the object has it.\<close>

definition obj_get :: "string \<Rightarrow> jsobj \<Rightarrow> jsval option" where
  "obj_get k obj = map_of obj k"

text \<open>\<^verbatim>\<open>const { k, ...rest } = obj\<close>: the object without the key \<open>k\<close>.\<close>

definition obj_rest :: "string \<Rightarrow> jsobj \<Rightarrow> jsobj" where
  "obj_rest k obj = filter (\<lambda>kv. fst kv \<noteq> k) obj"

text \<open>
  \<^verbatim>\<open>{ ...obj, k: v }\<close>: a key the object already has keeps its place and takes the
  new value, a new key goes last.
\<close>

definition obj_set :: "string \<Rightarrow> jsval \<Rightarrow> jsobj \<Rightarrow> jsobj" where
  "obj_set k v obj =
     (if k \<in> set (map fst obj)
      then map (\<lambda>kv. if fst kv = k then (k, v) else kv) obj
      else obj @ [(k, v)])"

text \<open>Whether a key occurs in a value, at any depth.\<close>

fun mentions :: "string \<Rightarrow> jsval \<Rightarrow> bool" where
  "mentions k (JNum n) = False"
| "mentions k (JStr s) = False"
| "mentions k (JArr vs) = list_ex (mentions k) vs"
| "mentions k (JObj kvs) = list_ex (\<lambda>kv. fst kv = k \<or> mentions k (snd kv)) kvs"

section \<open>The data store\<close>

record comment =
  comment_id :: string
  comment_anonId :: string
  comment_content :: string
  comment_timestamp :: int
  comment_ipHash :: string

record post =
  post_id :: string
  anonId :: string
  title :: string
  content :: string
  category :: string
  tags :: "string list"
  timestamp :: int
  likes :: int
  comments :: "comment list"
  ipHash :: string
  expiresAt :: int

text \<open>
  \<^verbatim>\<open>likedPosts\<close> is a \<^verbatim>\<open>Map\<close> from the hash of an address to the \<^verbatim>\<open>Set\<close> of the post
  ids that address has liked.
\<close>

record store =
  posts :: "post list"
  postIdCounter :: int
  commentIdCounter :: int
  likedPosts :: "string \<rightharpoonup> string set"
  maxPosts :: nat
  maxAge :: int

definition new_store :: store where
  "new_store = \<lparr> posts = [], postIdCounter = 1, commentIdCounter = 1,
                  likedPosts = Map.empty, maxPosts = 500,
                  maxAge = 7 * 24 * 60 * 60 * 1000 \<rparr>"

text \<open>
  What one call reads from its environment: the clock (\<^verbatim>\<open>Date.now()\<close>, one reading per
  call), the identifier \<^verbatim>\<open>generateId\<close> builds from the clock and a random draw in base
  36, and the two random draws of \<^verbatim>\<open>generateAnonId\<close>.
\<close>

record draws =
  clock :: int
  idDraw :: string
  prefixDraw :: real
  numberDraw :: real

definition generateId :: "draws \<Rightarrow> string" where
  "generateId d = idDraw d"

definition prefixes :: "string list" where
  "prefixes = [''Anon'', ''Ghost'', ''Shadow'', ''Phantom'', ''Mystery'', ''Unknown'',
               ''Cipher'', ''Void'', ''Echo'', ''Raven'', ''Sage'', ''Nova'', ''Zen'']"

text \<open>The number \<^verbatim>\<open>generateAnonId\<close> appends: \<^verbatim>\<open>Math.floor(Math.random() * 9999) + 1000\<close>.\<close>

definition anonNumber :: "real \<Rightarrow> int" where
  "anonNumber r = \<lfloor>r * 9999\<rfloor> + 1000"

definition anonPrefix :: "real \<Rightarrow> string" where
  "anonPrefix r =
     (let i = \<lfloor>r * real (length prefixes)\<rfloor>
      in if 0 \<le> i \<and> i < int (length prefixes) then prefixes ! nat i else ''undefined'')"

definition generateAnonId :: "draws \<Rightarrow> string" where
  "generateAnonId d = anonPrefix (prefixDraw d) @ show_int (anonNumber (numberDraw d))"

subsection \<open>Sanitised views\<close>

definition comment_obj :: "comment \<Rightarrow> jsobj" where
  "comment_obj c =
     [(''id'', JStr (comment_id c)),
      (''anonId'', JStr (comment_anonId c)),
      (''content'', JStr (comment_content c)),
      (''timestamp'', JNum (comment_timestamp c)),
      (''ipHash'', JStr (comment_ipHash c))]"

definition post_obj :: "post \<Rightarrow> jsobj" where
  "post_obj p =
     [(''id'', JStr (post_id p)),
      (''anonId'', JStr (anonId p)),
      (''title'', JStr (title p)),
      (''content'', JStr (content p)),
      (''category'', JStr (category p)),
      (''tags'', JArr (map JStr (tags p))),
      (''timestamp'', JNum (timestamp p)),
      (''likes'', JNum (likes p)),
      (''comments'', JArr (map (\<lambda>c. JObj (comment_obj c)) (comments p))),
      (''ipHash'', JStr (ipHash p)),
      (''expiresAt'', JNum (expiresAt p))]"

definition sanitizeComment :: "comment \<Rightarrow> jsobj" where
  "sanitizeComment c = obj_rest ''ipHash'' (comment_obj c)"

definition sanitizePost :: "post \<Rightarrow> jsobj" where
  "sanitizePost p =
     obj_set ''comments'' (JArr (map (\<lambda>c. JObj (sanitizeComment c)) (comments p)))
       (obj_rest ''ipHash'' (post_obj p))"

subsection \<open>createPost\<close>

record post_request =
  req_title :: string
  req_content :: string
  req_category :: string
  req_tags :: "string list option"
  req_ipHash :: string

definition build_post :: "store \<Rightarrow> post_request \<Rightarrow> draws \<Rightarrow> post" where
  "build_post st r d =
     \<lparr> post_id = generateId d,
       anonId = generateAnonId d,
       title = req_title r,
       content = req_content r,
       category = req_category r,
       tags = js_slice 0 5 (case req_tags r of None \<Rightarrow> [] | Some ts \<Rightarrow> ts),
       timestamp = clock d,
       likes = 0,
       comments = [],
       ipHash = req_ipHash r,
       expiresAt = clock d + maxAge st \<rparr>"

definition createPost :: "store \<Rightarrow> post_request \<Rightarrow> draws \<Rightarrow> jsobj \<times> store" where
  "createPost st r d =
     (let p = build_post st r d;
          ps = p # posts st;
          ps' = (if int (length ps) > int (maxPosts st)
                 then js_slice 0 (int (maxPosts st)) ps else ps)
      in (sanitizePost p, st\<lparr>posts := ps'\<rparr>))"

text \<open>A sequence of \<^verbatim>\<open>createPost\<close> calls, each with its request and its draws.\<close>

fun createPosts :: "store \<Rightarrow> (post_request \<times> draws) list \<Rightarrow> store" where
  "createPosts st [] = st"
| "createPosts st (c # cs) = createPosts (snd (createPost st (fst c) (snd c))) cs"

subsection \<open>getPosts\<close>

text \<open>
  A result of \<^verbatim>\<open>Math.ceil(total / limit)\<close>: an integer, or what a division by zero gives.
\<close>

datatype js_number = Num int | PosInfinity | NaN

definition js_less :: "int \<Rightarrow> js_number \<Rightarrow> bool" where
  "js_less i n = (case n of Num j \<Rightarrow> i < j | PosInfinity \<Rightarrow> True | NaN \<Rightarrow> False)"

record list_query =
  q_category :: "string option"
  q_page :: "int option"
  q_limit :: "int option"
  q_sort :: "string option"

record pagination =
  current :: int
  total :: js_number
  hasNext :: bool
  hasPrev :: bool
  totalPosts :: int

record post_page =
  page_posts :: "jsobj list"
  page_info :: pagination

text \<open>
  The filter of \<^verbatim>\<open>getPosts\<close>: a post is dropped when its \<^verbatim>\<open>expiresAt\<close> is below the
  clock, or when a category is given (a non-empty string) and is not the post's.
\<close>

definition keeps :: "int \<Rightarrow> string option \<Rightarrow> post \<Rightarrow> bool" where
  "keeps now cat p =
     (if expiresAt p < now then False
      else if (case cat of None \<Rightarrow> False | Some c \<Rightarrow> c \<noteq> [] \<and> category p \<noteq> c) then False
      else True)"

text \<open>
  \<^verbatim>\<open>Array.prototype.sort\<close> is stable, and each comparator orders by one number,
  largest first; \<open>sort_key\<close> is the stable insertion sort, smallest key first.
\<close>

definition sortPosts :: "string \<Rightarrow> post list \<Rightarrow> post list" where
  "sortPosts s ps =
     (if s = ''likes'' then sort_key (\<lambda>p. - likes p) ps
      else if s = ''comments'' then sort_key (\<lambda>p. - int (length (comments p))) ps
      else sort_key (\<lambda>p. - timestamp p) ps)"

definition filtered_sorted :: "store \<Rightarrow> int \<Rightarrow> string option \<Rightarrow> string \<Rightarrow> post list" where
  "filtered_sorted st now cat s = sortPosts s (filter (keeps now cat) (posts st))"

definition totalPages_of :: "int \<Rightarrow> int \<Rightarrow> js_number" where
  "totalPages_of n limit =
     (if limit = 0 then (if n = 0 then NaN else PosInfinity)
      else Num \<lceil>real_of_int n / real_of_int limit\<rceil>)"

text \<open>The defaults of the parameters: page 1, twenty posts a page, newest first.\<close>

definition query_page :: "list_query \<Rightarrow> int" where
  "query_page q = (case q_page q of None \<Rightarrow> 1 | Some p \<Rightarrow> p)"

definition query_limit :: "list_query \<Rightarrow> int" where
  "query_limit q = (case q_limit q of None \<Rightarrow> 20 | Some l \<Rightarrow> l)"

definition query_sort :: "list_query \<Rightarrow> string" where
  "query_sort q = (case q_sort q of None \<Rightarrow> ''timestamp'' | Some s \<Rightarrow> s)"

definition getPosts :: "store \<Rightarrow> int \<Rightarrow> list_query \<Rightarrow> post_page" where
  "getPosts st now q =
     (let page = query_page q;
          limit = query_limit q;
          srt = query_sort q;
          filtered = filtered_sorted st now (q_category q) srt;
          n = int (length filtered);
          totalPages = totalPages_of n limit;
          offset = (page - 1) * limit;
          paginatedPosts = js_slice offset (offset + limit) filtered
      in \<lparr> page_posts = map sanitizePost paginatedPosts,
           page_info = \<lparr> current = page, total = totalPages,
                         hasNext = js_less page totalPages,
                         hasPrev = (page > 1), totalPosts = n \<rparr> \<rparr>)"

subsection \<open>getPost, likePost, createComment, getComments\<close>

definition getPost :: "store \<Rightarrow> int \<Rightarrow> string \<Rightarrow> jsobj option" where
  "getPost st now pid =
     (case js_find (\<lambda>p. post_id p = pid) (posts st) of
        None \<Rightarrow> None
      | Some p \<Rightarrow> if expiresAt p < now then None else Some (sanitizePost p))"

datatype 'a outcome = Failure string | Success 'a

text \<open>
  The post object that \<^verbatim>\<open>find\<close> returned is changed in place: in the list, the first
  post with that id is the one that changes.
\<close>

fun update_first :: "('a \<Rightarrow> bool) \<Rightarrow> ('a \<Rightarrow> 'a) \<Rightarrow> 'a list \<Rightarrow> 'a list" where
  "update_first P f [] = []"
| "update_first P f (x # xs) = (if P x then f x # xs else x # update_first P f xs)"

text \<open>
  \<^verbatim>\<open>hashIP\<close> is SHA-256 of the address and a salt; \<^verbatim>\<open>likePost\<close> takes it as a
  parameter \<open>H\<close>.
\<close>

definition likePost ::
  "(string \<Rightarrow> string) \<Rightarrow> store \<Rightarrow> int \<Rightarrow> string \<Rightarrow> string \<Rightarrow> int outcome \<times> store" where
  "likePost H st now postId userIP =
     (case js_find (\<lambda>p. post_id p = postId) (posts st) of
        None \<Rightarrow> (Failure ''Post not found'', st)
      | Some p \<Rightarrow>
          if expiresAt p < now then (Failure ''Post not found'', st)
          else
            let h = H userIP;
                lp = (case likedPosts st h of
                        None \<Rightarrow> (likedPosts st)(h \<mapsto> {})
                      | Some s \<Rightarrow> likedPosts st);
                userLikes = (case lp h of None \<Rightarrow> {} | Some s \<Rightarrow> s)
            in if postId \<in> userLikes
               then (Failure ''Already liked'', st\<lparr>likedPosts := lp\<rparr>)
               else (Success (likes p + 1),
                     st\<lparr>posts := update_first (\<lambda>p. post_id p = postId)
                                    (\<lambda>p. p\<lparr>likes := likes p + 1\<rparr>) (posts st),
                        likedPosts := lp(h \<mapsto> insert postId userLikes)\<rparr>))"

definition createComment ::
  "store \<Rightarrow> string \<Rightarrow> string \<Rightarrow> string \<Rightarrow> draws \<Rightarrow> jsobj outcome \<times> store" where
  "createComment st postId body hash d =
     (case js_find (\<lambda>p. post_id p = postId) (posts st) of
        None \<Rightarrow> (Failure ''Post not found'', st)
      | Some p \<Rightarrow>
          if expiresAt p < clock d then (Failure ''Post not found'', st)
          else
            let c = \<lparr> comment_id = generateId d,
                      comment_anonId = generateAnonId d,
                      comment_content = body,
                      comment_timestamp = clock d,
                      comment_ipHash = hash \<rparr>
            in (Success (sanitizeComment c),
                st\<lparr>posts := update_first (\<lambda>p. post_id p = postId)
                               (\<lambda>p. p\<lparr>comments := comments p @ [c]\<rparr>) (posts st)\<rparr>))"

definition getComments :: "store \<Rightarrow> int \<Rightarrow> string \<Rightarrow> jsobj list" where
  "getComments st now postId =
     (case js_find (\<lambda>p. post_id p = postId) (posts st) of
        None \<Rightarrow> []
      | Some p \<Rightarrow> if expiresAt p < now then [] else map sanitizeComment (comments p))"

subsection \<open>cleanup\<close>

text \<open>
  \<^verbatim>\<open>cleanupLikedPosts\<close> visits every entry of the map: it deletes from the entry's set
  the ids of posts that are no longer stored, then deletes the entry if its set is empty.
\<close>

definition cleanupLikedPosts :: "store \<Rightarrow> store" where
  "cleanupLikedPosts st =
     (let validPostIds = set (map post_id (posts st))
      in st\<lparr>likedPosts :=
              (\<lambda>h. case likedPosts st h of
                      None \<Rightarrow> None
                    | Some likedSet \<Rightarrow>
                        let likedSet' = likedSet \<inter> validPostIds
                        in if likedSet' = {} then None else Some likedSet')\<rparr>)"

definition cleanup :: "store \<Rightarrow> int \<Rightarrow> int \<times> store" where
  "cleanup st now =
     (let initialLength = int (length (posts st));
          st1 = st\<lparr>posts := filter (\<lambda>p. expiresAt p > now) (posts st)\<rparr>;
          st2 = cleanupLikedPosts st1;
          removedCount = initialLength - int (length (posts st2))
      in (removedCount, st2))"

section \<open>The abuse mitigation middleware\<close>

subsection \<open>createRateLimit\<close>

record rl_entry =
  count :: int
  resetTime :: int

type_synonym rl_state = "string \<rightharpoonup> rl_entry"

datatype rl_result = Next | TooMany string int

text \<open>
  The closure's \<^verbatim>\<open>requests\<close> map is the state, passed in and returned. \<open>H\<close> is
  \<^verbatim>\<open>hashIP\<close>. The first loop deletes every entry older than the window; the second
  test of the age of the caller's entry is kept as the source has it.
\<close>

definition createRateLimit ::
  "int \<Rightarrow> int \<Rightarrow> string \<Rightarrow> (string \<Rightarrow> string) \<Rightarrow> rl_state \<Rightarrow> string \<Rightarrow> int
     \<Rightarrow> rl_result \<times> rl_state" where
  "createRateLimit windowMs max_requests message H requests ip now =
     (let key = H ip;
          cleaned = (\<lambda>k. case requests k of
                             None \<Rightarrow> None
                           | Some d \<Rightarrow> if now - resetTime d > windowMs then None else Some d)
      in case cleaned key of
           None \<Rightarrow> (Next, cleaned(key \<mapsto> \<lparr> count = 1, resetTime = now \<rparr>))
         | Some d \<Rightarrow>
             if now - resetTime d > windowMs
             then (Next, cleaned(key \<mapsto> d\<lparr> count := 1, resetTime := now \<rparr>))
             else if count d \<ge> max_requests
             then (TooMany message
                     \<lceil>real_of_int (windowMs - (now - resetTime d)) / 1000\<rceil>, cleaned)
             else (Next, cleaned(key \<mapsto> d\<lparr> count := count d + 1 \<rparr>)))"


subsection \<open>contentFilter\<close>

text \<open>Character classes of the regular expressions, on code units below 256.\<close>

definition is_line_terminator :: "char \<Rightarrow> bool" where
  "is_line_terminator c = (of_char c \<in> {10, 13 :: nat})"

definition is_upper :: "char \<Rightarrow> bool" where
  "is_upper c = (65 \<le> (of_char c :: nat) \<and> (of_char c :: nat) \<le> 90)"

definition is_word :: "char \<Rightarrow> bool" where
  "is_word c =
     (let n = (of_char c :: nat)
      in (65 \<le> n \<and> n \<le> 90) \<or> (97 \<le> n \<and> n \<le> 122) \<or> (48 \<le> n \<and> n \<le> 57) \<or> n = 95)"

text \<open>The \<^verbatim>\<open>i\<close> flag: letters A to Z match their lower-case forms.\<close>

definition lower :: "char \<Rightarrow> char" where
  "lower c = (if is_upper c then char_of (of_char c + (32 :: nat)) else c)"

text \<open>\<^verbatim>\<open>test\<close> tries the pattern at every position of the text, from the left.\<close>

fun search :: "(string \<Rightarrow> bool) \<Rightarrow> string \<Rightarrow> bool" where
  "search m [] = m []"
| "search m (c # cs) = (m (c # cs) \<or> search m cs)"

definition strip_prefix :: "string \<Rightarrow> string \<Rightarrow> string option" where
  "strip_prefix p s = (if take (length p) s = p then Some (drop (length p) s) else None)"

text \<open>\<^verbatim>\<open>/(.)\1{10,}/\<close>: a character other than a line terminator, then ten more of it.\<close>

definition repeated_chars :: "string \<Rightarrow> bool" where
  "repeated_chars s =
     (case s of [] \<Rightarrow> False
      | c # cs \<Rightarrow> \<not> is_line_terminator c \<and> 10 \<le> length (takeWhile (\<lambda>x. x = c) cs))"

text \<open>
  \<^verbatim>\<open>/(https?:\/\/[^\s]+){3,}/\<close>: the group three times in a row, each time the scheme
  and then one or more characters that are not white space; where the run of such
  characters is cut is the matcher's choice.
\<close>

definition url_head :: "string \<Rightarrow> string option" where
  "url_head s =
     (case strip_prefix ''https://'' s of
        Some r \<Rightarrow> Some r
      | None \<Rightarrow> strip_prefix ''http://'' s)"

fun urls :: "nat \<Rightarrow> string \<Rightarrow> bool" where
  "urls 0 s = True"
| "urls (Suc n) s =
     (case url_head s of
        None \<Rightarrow> False
      | Some r \<Rightarrow>
          list_ex (\<lambda>k. urls n (drop k r))
            [1 ..< Suc (length (takeWhile (\<lambda>c. \<not> is_space c) r))])"

definition multiple_urls :: "string \<Rightarrow> bool" where
  "multiple_urls s = urls 3 s"

text \<open>\<^verbatim>\<open>/[A-Z]{20,}/\<close>\<close>

definition all_caps :: "string \<Rightarrow> bool" where
  "all_caps s = (20 \<le> length (takeWhile is_upper s))"

text \<open>
  \<^verbatim>\<open>/(.{1,20})\1{3,}/\<close>: one to twenty characters, none a line terminator, and then
  the same characters three more times.
\<close>

definition repeated_phrase :: "string \<Rightarrow> bool" where
  "repeated_phrase s =
     list_ex (\<lambda>k. let w = take k s
                   in length w = k \<and> \<not> list_ex is_line_terminator w
                      \<and> take (4 * k) s = concat (replicate 4 w))
       [1 ..< 21]"

definition spam_phrases :: "string list" where
  "spam_phrases = [''buy now'', ''click here'', ''urgent'', ''limited time'']"

definition has_phrase :: "string \<Rightarrow> bool" where
  "has_phrase s =
     list_ex (\<lambda>p. search (\<lambda>t. take (length p) t = p) (map lower s)) spam_phrases"

definition spam_keywords :: "string list" where
  "spam_keywords = [''viagra'', ''casino'', ''lottery'', ''winner'']"

text \<open>
  \<^verbatim>\<open>/\b(viagra|casino|lottery|winner)\b/gi\<close>: the flag says whether the character
  before the position is a word character.
\<close>

fun keyword_search :: "bool \<Rightarrow> string \<Rightarrow> bool" where
  "keyword_search pw [] = False"
| "keyword_search pw (c # cs) =
     ((\<not> pw \<and> list_ex (\<lambda>k. case strip_prefix k (c # cs) of
                                None \<Rightarrow> False
                              | Some r \<Rightarrow> (case r of [] \<Rightarrow> True | d # ds \<Rightarrow> \<not> is_word d))
                 spam_keywords)
      \<or> keyword_search (is_word c) cs)"

definition has_keyword :: "string \<Rightarrow> bool" where
  "has_keyword s = keyword_search False (map lower s)"

text \<open>A field of the request body may be absent; an absent or empty text is not spam.\<close>

definition checkSpam :: "string option \<Rightarrow> bool" where
  "checkSpam text =
     (case text of
        None \<Rightarrow> False
      | Some s \<Rightarrow>
          if s = [] then False
          else search repeated_chars s \<or> search multiple_urls s \<or> search all_caps s
               \<or> search repeated_phrase s \<or> has_phrase s \<or> has_keyword s)"

datatype filter_result = Continue | Reject int string

definition contentFilter :: "string option \<Rightarrow> string option \<Rightarrow> filter_result" where
  "contentFilter ttl body =
     (if checkSpam ttl \<or> checkSpam body
      then Reject 400 ''Content appears to be spam or violates community guidelines''
      else Continue)"

section \<open>Sample data\<close>

definition sample_request :: "string \<Rightarrow> post_request" where
  "sample_request t =
     \<lparr> req_title = t, req_content = ''Ten chars.'', req_category = ''general'',
       req_tags = Some [''a'', ''b'', ''c'', ''d'', ''e'', ''f''], req_ipHash = ''f3a9'' \<rparr>"

definition sample_draws :: "int \<Rightarrow> draws" where
  "sample_draws t =
     \<lparr> clock = t, idDraw = ''k'' @ show_int t, prefixDraw = 0, numberDraw = 15 / 16 \<rparr>"

definition sample_comment :: comment where
  "sample_comment =
     \<lparr> comment_id = ''c1'', comment_anonId = ''Echo4821'', comment_content = ''First!'',
       comment_timestamp = 500, comment_ipHash = ''77aa'' \<rparr>"

definition sample_post :: post where
  "sample_post =
     \<lparr> post_id = ''p1'', anonId = ''Raven2719'', title = ''Hello World'',
       content = ''Ten chars.'', category = ''general'', tags = [''welcome''],
       timestamp = 400, likes = 0, comments = [sample_comment], ipHash = ''f3a9'',
       expiresAt = 1000 \<rparr>"

definition sample_store :: store where
  "sample_store = new_store\<lparr>posts := [sample_post]\<rparr>"

definition default_query :: list_query where
  "default_query = \<lparr> q_category = None, q_page = None, q_limit = None, q_sort = None \<rparr>"

text \<open>Three posts, stored out of the order of their timestamps.\<close>

definition sample_board :: store where
  "sample_board =
     new_store\<lparr>posts := [sample_post\<lparr>post_id := ''p2'', timestamp := 300\<rparr>, sample_post,
                         sample_post\<lparr>post_id := ''p3'', timestamp := 600\<rparr>]\<rparr>"

text \<open>A stand-in for \<^verbatim>\<open>hashIP\<close> in examples.\<close>

definition sample_hash :: "string \<Rightarrow> string" where
  "sample_hash ip = ''sha256:'' @ ip"

section \<open>Properties of the store\<close>

subsection \<open>The sample store\<close>

lemma sample_post_fields:
  "post_id sample_post = ''p1''"
  "expiresAt sample_post = 1000"
  "category sample_post = ''general''"
  "likes sample_post = 0"
  "comments sample_post = [sample_comment]"
  by (simp_all add: sample_post_def)

lemma sample_store_fields:
  "posts sample_store = [sample_post]"
  "likedPosts sample_store = Map.empty"
  by (simp_all add: sample_store_def new_store_def)

subsection \<open>Slices\<close>

lemma js_slice_take: "0 \<le> n \<Longrightarrow> js_slice 0 n xs = take (nat n) xs"
  by (auto simp: js_slice_def Let_def min_def)

lemma js_slice_take_drop:
  "0 \<le> a \<Longrightarrow> a \<le> b \<Longrightarrow> js_slice a b xs = take (nat (b - a)) (drop (nat a) xs)"
  by (auto simp: js_slice_def Let_def min_def)

subsection \<open>Capacity\<close>

lemma createPost_posts:
  "posts (snd (createPost st r d)) = take (maxPosts st) (build_post st r d # posts st)"
  by (simp add: createPost_def Let_def js_slice_take del: take_Suc_Cons)

lemma createPost_config:
  "maxPosts (snd (createPost st r d)) = maxPosts st"
  "maxAge (snd (createPost st r d)) = maxAge st"
  by (simp_all add: createPost_def Let_def)

lemma build_post_maxAge: "maxAge st' = maxAge st \<Longrightarrow> build_post st' r d = build_post st r d"
  by (simp add: build_post_def)

lemma take_append_take: "take n (xs @ take n ys) = take n (xs @ ys)"
  by (simp add: min_def)

lemma createPosts_posts:
  "length (posts st) \<le> maxPosts st \<Longrightarrow>
   posts (createPosts st cs) =
     take (maxPosts st) (rev (map (\<lambda>c. build_post st (fst c) (snd c)) cs) @ posts st)"
proof (induction cs arbitrary: st)
  case Nil
  then show ?case by simp
next
  case (Cons c cs)
  let ?st1 = "snd (createPost st (fst c) (snd c))"
  have len: "length (posts ?st1) \<le> maxPosts ?st1"
    by (simp add: createPost_posts createPost_config del: take_Suc_Cons)
  have same: "\<And>r d. build_post ?st1 r d = build_post st r d"
    by (rule build_post_maxAge) (simp add: createPost_config)
  show ?case
    using Cons.IH [OF len]
    by (simp add: same createPost_config createPost_posts take_append_take del: take_Suc_Cons)
qed

text \<open>
  C2. Starting from a store within its capacity, after any sequence of \<^verbatim>\<open>createPost\<close>
  calls the collection holds at most \<open>maxPosts\<close> posts: the posts created, newest first,
  followed by the earlier ones, cut to \<open>maxPosts\<close>. Once \<open>maxPosts\<close> or more posts have
  been created it is exactly the last \<open>maxPosts\<close> created, newest first.
\<close>

theorem createPosts_keeps_newest:
  assumes "length (posts st) \<le> maxPosts st"
  shows "length (posts (createPosts st cs)) \<le> maxPosts st
       \<and> posts (createPosts st cs) =
           take (maxPosts st) (rev (map (\<lambda>c. build_post st (fst c) (snd c)) cs) @ posts st)
       \<and> (maxPosts st \<le> length cs \<longrightarrow>
            posts (createPosts st cs) =
              rev (drop (length cs - maxPosts st)
                     (map (\<lambda>c. build_post st (fst c) (snd c)) cs)))"
proof -
  let ?made = "map (\<lambda>c. build_post st (fst c) (snd c)) cs"
  have eq: "posts (createPosts st cs) = take (maxPosts st) (rev ?made @ posts st)"
    using assms by (rule createPosts_posts)
  have "maxPosts st \<le> length cs \<Longrightarrow>
        take (maxPosts st) (rev ?made @ posts st) = rev (drop (length cs - maxPosts st) ?made)"
    by (simp add: take_rev)
  with eq show ?thesis by simp
qed

text \<open>The example of the specification: A, B, C created with room for two leaves C, B.\<close>

theorem createPosts_keeps_newest_witness:
  "length (posts (new_store\<lparr>maxPosts := 2\<rparr>)) \<le> maxPosts (new_store\<lparr>maxPosts := 2\<rparr>)
   \<and> posts (createPosts (new_store\<lparr>maxPosts := 2\<rparr>)
        [(sample_request ''A'', sample_draws 1), (sample_request ''B'', sample_draws 2),
         (sample_request ''C'', sample_draws 3)])
     = [build_post (new_store\<lparr>maxPosts := 2\<rparr>) (sample_request ''C'') (sample_draws 3),
        build_post (new_store\<lparr>maxPosts := 2\<rparr>) (sample_request ''B'') (sample_draws 2)]"
  using createPosts_keeps_newest [of "new_store\<lparr>maxPosts := 2\<rparr>"
      "[(sample_request ''A'', sample_draws 1), (sample_request ''B'', sample_draws 2),
        (sample_request ''C'', sample_draws 3)]"]
  by (simp add: new_store_def)

subsection \<open>What a created post carries\<close>

lemma sanitizePost_fields:
  "obj_get ''title'' (sanitizePost p) = Some (JStr (title p))"
  "obj_get ''content'' (sanitizePost p) = Some (JStr (content p))"
  "obj_get ''tags'' (sanitizePost p) = Some (JArr (map JStr (tags p)))"
  "obj_get ''expiresAt'' (sanitizePost p) = Some (JNum (expiresAt p))"
  by (simp_all add: sanitizePost_def post_obj_def obj_rest_def obj_set_def obj_get_def)

text \<open>
  C9, as stated, fails: \<^verbatim>\<open>createPost\<close> does not trim. A title passed with a space on
  each side comes back with both spaces.
\<close>

theorem createPost_title_not_trimmed:
  "obj_get ''title'' (fst (createPost new_store (sample_request '' Hi there '') (sample_draws 1)))
     \<noteq> Some (JStr (trim '' Hi there ''))"
  by (simp add: createPost_def Let_def sanitizePost_fields build_post_def sample_request_def
      trim_def is_space_def)

text \<open>
  C9, amended. The post returned by \<^verbatim>\<open>createPost\<close> carries the title and the body
  exactly as the caller passed them, and its tags are the first five of the tags passed
  (none when the caller passed no tags).
\<close>

theorem createPost_text_as_passed:
  "obj_get ''title'' (fst (createPost st r d)) = Some (JStr (req_title r))
   \<and> obj_get ''content'' (fst (createPost st r d)) = Some (JStr (req_content r))
   \<and> obj_get ''tags'' (fst (createPost st r d))
       = Some (JArr (map JStr (take 5 (case req_tags r of None \<Rightarrow> [] | Some ts \<Rightarrow> ts))))"
  by (simp add: createPost_def Let_def sanitizePost_fields build_post_def js_slice_take)

subsection \<open>Display aliases\<close>

text \<open>
  C10 at a failing input: with the random draw 15/16 the number appended to the prefix is
  \<open>\<lfloor>15/16 * 9999\<rfloor> + 1000 = 10374\<close>, five digits and above 9999.
\<close>

theorem generateAnonId_five_digits:
  "generateAnonId \<lparr> clock = 0, idDraw = ''k0'', prefixDraw = 0, numberDraw = 15 / 16 \<rparr>
     = ''Anon10374''"
  by (simp add: generateAnonId_def anonPrefix_def anonNumber_def prefixes_def show_int_def
      digits10.simps)

subsection \<open>Reading the sample store\<close>

lemma getPosts_page_posts:
  "page_posts (getPosts st now q) =
     map sanitizePost
       (js_slice ((query_page q - 1) * query_limit q)
          ((query_page q - 1) * query_limit q + query_limit q)
          (filtered_sorted st now (q_category q) (query_sort q)))"
  by (simp add: getPosts_def Let_def)

lemma sample_filtered_sorted:
  "filtered_sorted sample_store 1000 None ''timestamp'' = [sample_post]"
  by (simp add: filtered_sorted_def sortPosts_def keeps_def sample_store_fields sample_post_fields)

lemma sample_getPosts:
  "page_posts (getPosts sample_store 1000 default_query) = [sanitizePost sample_post]"
  by (simp add: getPosts_page_posts query_page_def query_limit_def query_sort_def
      default_query_def sample_filtered_sorted js_slice_def)

lemma sample_getPost: "getPost sample_store 1000 ''p1'' = Some (sanitizePost sample_post)"
  by (simp add: getPost_def sample_store_fields sample_post_fields)

lemma sample_getComments:
  "getComments sample_store 1000 ''p1'' = [sanitizeComment sample_comment]"
  by (simp add: getComments_def sample_store_fields sample_post_fields)

lemma sample_createComment:
  "fst (createComment sample_store ''p1'' ''Nice'' ''beef'' (sample_draws 900))
     = Success (sanitizeComment \<lparr> comment_id = generateId (sample_draws 900),
                      comment_anonId = generateAnonId (sample_draws 900),
                      comment_content = ''Nice'', comment_timestamp = 900,
                      comment_ipHash = ''beef'' \<rparr>)"
  by (simp add: createComment_def sample_store_fields sample_post_fields sample_draws_def Let_def)

subsection \<open>Sanitised views\<close>

lemma sanitizeComment_hides_ipHash: "\<not> mentions ''ipHash'' (JObj (sanitizeComment c))"
  by (simp add: sanitizeComment_def comment_obj_def obj_rest_def)

lemma sanitizePost_hides_ipHash: "\<not> mentions ''ipHash'' (JObj (sanitizePost p))"
  by (simp add: sanitizePost_def post_obj_def obj_rest_def obj_set_def
      sanitizeComment_def comment_obj_def list_ex_iff)

lemma post_obj_has_ipHash: "mentions ''ipHash'' (JObj (post_obj p))"
  by (simp add: post_obj_def)

text \<open>
  C6. No view returned by \<^verbatim>\<open>createPost\<close>, \<^verbatim>\<open>getPosts\<close>, \<^verbatim>\<open>getPost\<close>,
  \<^verbatim>\<open>createComment\<close> or \<^verbatim>\<open>getComments\<close> has the key \<^verbatim>\<open>ipHash\<close>, on the post or
  on any comment nested in it, whatever the store and the arguments.
\<close>

theorem views_hide_ipHash:
  "\<not> mentions ''ipHash'' (JObj (fst (createPost st r d)))
   \<and> (\<forall>v \<in> set (page_posts (getPosts st now q)). \<not> mentions ''ipHash'' (JObj v))
   \<and> (\<forall>v. getPost st now pid = Some v \<longrightarrow> \<not> mentions ''ipHash'' (JObj v))
   \<and> (\<forall>v. fst (createComment st pid body h d) = Success v \<longrightarrow> \<not> mentions ''ipHash'' (JObj v))
   \<and> (\<forall>v \<in> set (getComments st now pid). \<not> mentions ''ipHash'' (JObj v))"
proof (intro conjI)
  show "\<not> mentions ''ipHash'' (JObj (fst (createPost st r d)))"
    by (simp add: createPost_def Let_def sanitizePost_hides_ipHash del: mentions.simps)
  show "\<forall>v \<in> set (page_posts (getPosts st now q)). \<not> mentions ''ipHash'' (JObj v)"
    by (auto simp: getPosts_page_posts sanitizePost_hides_ipHash simp del: mentions.simps)
  show "\<forall>v. getPost st now pid = Some v \<longrightarrow> \<not> mentions ''ipHash'' (JObj v)"
    by (auto simp: getPost_def sanitizePost_hides_ipHash simp del: mentions.simps
        split: option.splits if_splits)
  show "\<forall>v. fst (createComment st pid body h d) = Success v \<longrightarrow> \<not> mentions ''ipHash'' (JObj v)"
    by (auto simp: createComment_def Let_def sanitizeComment_hides_ipHash
        simp del: mentions.simps split: option.splits if_splits)
  show "\<forall>v \<in> set (getComments st now pid). \<not> mentions ''ipHash'' (JObj v)"
    by (auto simp: getComments_def sanitizeComment_hides_ipHash simp del: mentions.simps
        split: option.splits if_splits)
qed

text \<open>
  The sample post, whose stored object does have the key, read back through each
  operation.
\<close>

theorem views_hide_ipHash_witness:
  "sanitizePost sample_post \<in> set (page_posts (getPosts sample_store 1000 default_query))
   \<and> \<not> mentions ''ipHash'' (JObj (sanitizePost sample_post))
   \<and> mentions ''ipHash'' (JObj (post_obj sample_post))
   \<and> getPost sample_store 1000 ''p1'' = Some (sanitizePost sample_post)
   \<and> sanitizeComment sample_comment \<in> set (getComments sample_store 1000 ''p1'')
   \<and> \<not> mentions ''ipHash'' (JObj (sanitizeComment sample_comment))
   \<and> (\<exists>v. fst (createComment sample_store ''p1'' ''Nice'' ''beef'' (sample_draws 900)) = Success v
           \<and> \<not> mentions ''ipHash'' (JObj v))"
  using views_hide_ipHash [of sample_store "sample_request ''T''" "sample_draws 900" 1000
      default_query "''p1''" "''Nice''" "''beef''"]
  by (simp add: sample_getPosts sample_getPost sample_getComments sample_createComment
      post_obj_has_ipHash del: mentions.simps)

subsection \<open>Expiry at the boundary\<close>

text \<open>
  C1 at a failing input: the sample post expires at 1000. Read at the clock 1000,
  \<^verbatim>\<open>getPosts\<close> and \<^verbatim>\<open>getPost\<close> still return it, since they drop a post only when
  \<^verbatim>\<open>expiresAt < now\<close>; \<^verbatim>\<open>cleanup\<close> at the same clock keeps a post only when
  \<^verbatim>\<open>expiresAt > now\<close>, and removes it.
\<close>

theorem getPosts_returns_post_expiring_now:
  "expiresAt sample_post = 1000
   \<and> page_posts (getPosts sample_store 1000 default_query) = [sanitizePost sample_post]
   \<and> obj_get ''expiresAt'' (sanitizePost sample_post) = Some (JNum 1000)
   \<and> getPost sample_store 1000 ''p1'' = Some (sanitizePost sample_post)
   \<and> fst (cleanup sample_store 1000) = 1
   \<and> posts (snd (cleanup sample_store 1000)) = []"
  by (simp add: sample_getPosts sample_getPost sanitizePost_fields sample_post_fields
      cleanup_def cleanupLikedPosts_def sample_store_fields Let_def)

subsection \<open>Cleanup\<close>

lemma cleanup_posts: "posts (snd (cleanup st now)) = filter (\<lambda>p. expiresAt p > now) (posts st)"
  by (simp add: cleanup_def cleanupLikedPosts_def Let_def)

lemma cleanup_likedPosts:
  "likedPosts (snd (cleanup st now)) h =
     (case likedPosts st h of
        None \<Rightarrow> None
      | Some s \<Rightarrow>
          if s \<inter> post_id ` set (filter (\<lambda>p. expiresAt p > now) (posts st)) = {} then None
          else Some (s \<inter> post_id ` set (filter (\<lambda>p. expiresAt p > now) (posts st))))"
  by (simp add: cleanup_def cleanupLikedPosts_def Let_def split: option.splits)

lemma length_filter_split:
  "int (length xs) - int (length (filter P xs)) = int (length (filter (\<lambda>x. \<not> P x) xs))"
  using sum_length_filter_compl [of P xs] by simp

text \<open>
  C5. \<^verbatim>\<open>cleanup\<close> keeps exactly the stored posts whose \<^verbatim>\<open>expiresAt\<close> is not at or below
  the clock, in their order, and returns the number of posts it removed; afterwards every
  set in the like ledger is non-empty and holds only ids of stored posts.
\<close>

theorem cleanup_removes_expired:
  "(\<forall>p. p \<in> set (posts (snd (cleanup st now))) \<longleftrightarrow> p \<in> set (posts st) \<and> \<not> expiresAt p \<le> now)
   \<and> posts (snd (cleanup st now)) = filter (\<lambda>p. \<not> expiresAt p \<le> now) (posts st)
   \<and> fst (cleanup st now) = int (length (filter (\<lambda>p. expiresAt p \<le> now) (posts st)))
   \<and> (\<forall>h s. likedPosts (snd (cleanup st now)) h = Some s \<longrightarrow>
          s \<noteq> {} \<and> s \<subseteq> post_id ` set (posts (snd (cleanup st now))))"
proof (intro conjI)
  have flt: "(\<lambda>p. now < expiresAt p) = (\<lambda>p. \<not> expiresAt p \<le> now)"
    by (simp add: not_le)
  show eq: "posts (snd (cleanup st now)) = filter (\<lambda>p. \<not> expiresAt p \<le> now) (posts st)"
    by (simp add: cleanup_posts flt)
  show "\<forall>p. p \<in> set (posts (snd (cleanup st now))) \<longleftrightarrow> p \<in> set (posts st) \<and> \<not> expiresAt p \<le> now"
    by (simp add: eq)
  have "fst (cleanup st now) = int (length (posts st)) - int (length (posts (snd (cleanup st now))))"
    by (simp add: cleanup_def cleanupLikedPosts_def Let_def)
  also have "\<dots> = int (length (filter (\<lambda>p. \<not> \<not> expiresAt p \<le> now) (posts st)))"
    unfolding eq by (rule length_filter_split)
  finally show "fst (cleanup st now) = int (length (filter (\<lambda>p. expiresAt p \<le> now) (posts st)))"
    by simp
  show "\<forall>h s. likedPosts (snd (cleanup st now)) h = Some s \<longrightarrow>
          s \<noteq> {} \<and> s \<subseteq> post_id ` set (posts (snd (cleanup st now)))"
    by (auto simp: cleanup_likedPosts cleanup_posts split: option.splits if_splits)
qed

text \<open>
  The sample post is removed at its expiry and counted; a like for it survives a cleanup
  before the expiry and is deleted, with its entry, by the cleanup that removes the post.
\<close>

theorem cleanup_removes_expired_witness:
  "sample_post \<in> set (posts sample_store) \<and> expiresAt sample_post \<le> 1000
   \<and> sample_post \<notin> set (posts (snd (cleanup sample_store 1000)))
   \<and> fst (cleanup sample_store 1000) = 1
   \<and> likedPosts (snd (cleanup (sample_store\<lparr>likedPosts := [''f3a9'' \<mapsto> {''p1''}]\<rparr>) 500)) ''f3a9''
       = Some {''p1''}
   \<and> {''p1''} \<subseteq> post_id ` set (posts (snd (cleanup (sample_store\<lparr>likedPosts := [''f3a9'' \<mapsto> {''p1''}]\<rparr>) 500)))
   \<and> likedPosts (snd (cleanup (sample_store\<lparr>likedPosts := [''f3a9'' \<mapsto> {''p1''}]\<rparr>) 1000)) ''f3a9''
       = None"
  using cleanup_removes_expired [of sample_store 1000]
    cleanup_removes_expired [of "sample_store\<lparr>likedPosts := [''f3a9'' \<mapsto> {''p1''}]\<rparr>" 500]
  by (simp add: sample_store_fields sample_post_fields cleanup_likedPosts)

subsection \<open>Likes\<close>

lemma js_find_Some: "js_find P xs = Some x \<Longrightarrow> P x \<and> x \<in> set xs"
  by (induction xs) (auto split: if_splits)

lemma js_find_update_first:
  "js_find P xs = Some x \<Longrightarrow> P (f x) \<Longrightarrow> js_find P (update_first P f xs) = Some (f x)"
  by (induction xs) (auto split: if_splits)

lemma find_liked_post:
  assumes "js_find (\<lambda>p. post_id p = pid) ps = Some p"
  shows "js_find (\<lambda>p. post_id p = pid)
           (update_first (\<lambda>p. post_id p = pid) (\<lambda>p. p\<lparr>likes := likes p + 1\<rparr>) ps)
         = Some (p\<lparr>likes := likes p + 1\<rparr>)"
proof -
  have "post_id p = pid"
    using js_find_Some [OF assms] by simp
  then have "post_id (p\<lparr>likes := likes p + 1\<rparr>) = pid"
    by simp
  with assms show ?thesis
    by (rule js_find_update_first [where f = "\<lambda>p. p\<lparr>likes := likes p + 1\<rparr>"])
qed

lemma likePost_first:
  assumes "js_find (\<lambda>p. post_id p = pid) (posts st) = Some p"
      and "\<not> expiresAt p < now"
      and "\<forall>s. likedPosts st h = Some s \<longrightarrow> pid \<notin> s"
      and "H ip = h"
  shows "fst (likePost H st now pid ip) = Success (likes p + 1)"
    and "js_find (\<lambda>p. post_id p = pid) (posts (snd (likePost H st now pid ip)))
           = Some (p\<lparr>likes := likes p + 1\<rparr>)"
    and "\<exists>s. likedPosts (snd (likePost H st now pid ip)) h = Some s \<and> pid \<in> s"
    and "h' \<noteq> h \<Longrightarrow> likedPosts (snd (likePost H st now pid ip)) h' = likedPosts st h'"
  using assms
  by (auto simp: likePost_def Let_def find_liked_post split: option.splits)

lemma likePost_again:
  assumes "js_find (\<lambda>p. post_id p = pid) (posts st) = Some p"
      and "\<not> expiresAt p < now"
      and "likedPosts st h = Some s" and "pid \<in> s" and "H ip = h"
  shows "likePost H st now pid ip = (Failure ''Already liked'', st)"
  using assms by (auto simp: likePost_def Let_def)

text \<open>
  C3. Let \<open>p\<close> be the post the store finds under \<open>pid\<close>, not expired at the times of
  the calls, and not yet liked by the identity \<open>H ip\<close>. The first \<^verbatim>\<open>likePost\<close> by
  \<open>ip\<close> succeeds with \<open>likes p + 1\<close> and stores that count; a second one by \<open>ip\<close> is
  rejected as already liked and returns the store unchanged; a like by another identity
  that has not liked the post succeeds and brings the count to \<open>likes p + 2\<close>.
\<close>

theorem likePost_once_per_identity:
  assumes stored: "js_find (\<lambda>p. post_id p = pid) (posts st) = Some p"
      and live: "now1 \<le> expiresAt p" "now2 \<le> expiresAt p" "now3 \<le> expiresAt p"
      and first: "\<forall>s. likedPosts st (H ip) = Some s \<longrightarrow> pid \<notin> s"
      and other: "H ip' \<noteq> H ip" "\<forall>s. likedPosts st (H ip') = Some s \<longrightarrow> pid \<notin> s"
  shows "fst (likePost H st now1 pid ip) = Success (likes p + 1)
       \<and> js_find (\<lambda>p. post_id p = pid) (posts (snd (likePost H st now1 pid ip)))
           = Some (p\<lparr>likes := likes p + 1\<rparr>)
       \<and> likePost H (snd (likePost H st now1 pid ip)) now2 pid ip
           = (Failure ''Already liked'', snd (likePost H st now1 pid ip))
       \<and> fst (likePost H (snd (likePost H st now1 pid ip)) now3 pid ip') = Success (likes p + 2)
       \<and> js_find (\<lambda>p. post_id p = pid)
             (posts (snd (likePost H (snd (likePost H st now1 pid ip)) now3 pid ip')))
           = Some (p\<lparr>likes := likes p + 2\<rparr>)"
proof -
  let ?st1 = "snd (likePost H st now1 pid ip)"
  let ?p1 = "p\<lparr>likes := likes p + 1\<rparr>"
  have l1: "\<not> expiresAt p < now1" and l2: "\<not> expiresAt ?p1 < now2" and l3: "\<not> expiresAt ?p1 < now3"
    using live by simp_all
  note a = likePost_first [where H = H and ip = ip, OF stored l1 first refl]
  have found1: "js_find (\<lambda>p. post_id p = pid) (posts ?st1) = Some ?p1"
    by (rule a(2))
  obtain s where s: "likedPosts ?st1 (H ip) = Some s" "pid \<in> s"
    using a(3) by blast
  have again: "likePost H ?st1 now2 pid ip = (Failure ''Already liked'', ?st1)"
    by (rule likePost_again [where H = H and ip = ip, OF found1 l2 s refl])
  have first': "\<forall>s. likedPosts ?st1 (H ip') = Some s \<longrightarrow> pid \<notin> s"
    using a(4) [OF other(1)] other(2) by simp
  note b = likePost_first [where H = H and ip = ip', OF found1 l3 first' refl]
  show ?thesis
    using a(1) found1 again b(1) b(2) by simp
qed

text \<open>
  The example of the specification: X likes P (count 1), X likes P again (rejected), Y
  likes P (count 2).
\<close>

theorem likePost_once_per_identity_witness:
  "js_find (\<lambda>p. post_id p = ''p1'') (posts sample_store) = Some sample_post
   \<and> (700 :: int) \<le> expiresAt sample_post
   \<and> likedPosts sample_store (sample_hash ''10.0.0.1'') = None
   \<and> sample_hash ''10.0.0.2'' \<noteq> sample_hash ''10.0.0.1''
   \<and> fst (likePost sample_hash sample_store 500 ''p1'' ''10.0.0.1'') = Success 1
   \<and> likePost sample_hash (snd (likePost sample_hash sample_store 500 ''p1'' ''10.0.0.1''))
         600 ''p1'' ''10.0.0.1''
       = (Failure ''Already liked'', snd (likePost sample_hash sample_store 500 ''p1'' ''10.0.0.1''))
   \<and> fst (likePost sample_hash (snd (likePost sample_hash sample_store 500 ''p1'' ''10.0.0.1''))
         700 ''p1'' ''10.0.0.2'') = Success 2"
  using likePost_once_per_identity [where pid = "''p1''" and st = sample_store
      and p = sample_post and ?now1.0 = 500 and ?now2.0 = 600 and ?now3.0 = 700
      and H = sample_hash and ip = "''10.0.0.1''" and ip' = "''10.0.0.2''"]
  by (simp add: sample_store_fields sample_post_fields sample_hash_def)

subsection \<open>Pagination\<close>

lemma getPosts_page_info:
  "page_info (getPosts st now q) =
     \<lparr> current = query_page q,
       total = totalPages_of (int (length (filtered_sorted st now (q_category q) (query_sort q))))
                 (query_limit q),
       hasNext = js_less (query_page q)
                   (totalPages_of
                      (int (length (filtered_sorted st now (q_category q) (query_sort q))))
                      (query_limit q)),
       hasPrev = (query_page q > 1),
       totalPosts = int (length (filtered_sorted st now (q_category q) (query_sort q))) \<rparr>"
  by (simp add: getPosts_def Let_def)

lemma concat_pages:
  assumes "0 < l"
  shows "concat (map (\<lambda>k. js_slice ((k - 1) * l) ((k - 1) * l + l) xs) [1 .. int t])
         = take (t * nat l) xs"
proof (induction t)
  case 0
  show ?case by simp
next
  case (Suc t)
  let ?page = "\<lambda>k. js_slice ((k - 1) * l) ((k - 1) * l + l) xs"
  have up: "[1 .. int (Suc t)] = [1 .. int t] @ [int (Suc t)]"
    using upto_rec2 [of 1 "int (Suc t)"] by simp
  have "0 \<le> int t * l" and "int t * l \<le> int t * l + l"
    using assms by simp_all
  then have "js_slice (int t * l) (int t * l + l) xs
               = take (nat (int t * l + l - int t * l)) (drop (nat (int t * l)) xs)"
    by (rule js_slice_take_drop)
  then have last: "?page (int (Suc t)) = take (nat l) (drop (t * nat l) xs)"
    by (simp add: nat_mult_distrib)
  have "concat (map ?page [1 .. int (Suc t)]) = concat (map ?page [1 .. int t]) @ ?page (int (Suc t))"
    unfolding up by simp
  also have "\<dots> = take (t * nat l) xs @ take (nat l) (drop (t * nat l) xs)"
    unfolding Suc.IH last ..
  also have "\<dots> = take (t * nat l + nat l) xs"
    by (rule take_add [symmetric])
  finally show ?case by (simp add: add.commute)
qed

lemma pages_cover:
  assumes "0 < l"
  shows "n \<le> \<lceil>real_of_int n / real_of_int l\<rceil> * l"
proof -
  have pos: "0 < real_of_int l"
    using assms by simp
  have "real_of_int n \<le> real_of_int \<lceil>real_of_int n / real_of_int l\<rceil> * real_of_int l"
    by (rule iffD1 [OF pos_divide_le_eq [OF pos] le_of_int_ceiling])
  then have "real_of_int n \<le> real_of_int (\<lceil>real_of_int n / real_of_int l\<rceil> * l)"
    by simp
  then show ?thesis
    by (simp only: of_int_le_iff)
qed

lemma less_ceiling_pages:
  assumes "0 < l"
  shows "(p < \<lceil>real_of_int n / real_of_int l\<rceil>) = (p * l < n)"
proof -
  have "(p < \<lceil>real_of_int n / real_of_int l\<rceil>) = (real_of_int p < real_of_int n / real_of_int l)"
    by (rule less_ceiling_iff)
  also have "\<dots> = (real_of_int p * real_of_int l < real_of_int n)"
    using assms by (simp add: pos_less_divide_eq)
  also have "\<dots> = (real_of_int (p * l) < real_of_int n)"
    by simp
  also have "\<dots> = (p * l < n)"
    by (simp only: of_int_less_iff)
  finally show ?thesis .
qed

lemma js_slice_length:
  assumes "0 \<le> a" and "0 \<le> l"
  shows "int (length (js_slice a (a + l) xs)) \<le> l"
proof -
  have "js_slice a (a + l) xs = take (nat (a + l - a)) (drop (nat a) xs)"
    using assms by (intro js_slice_take_drop) simp_all
  then show ?thesis
    using assms by simp
qed

text \<open>
  C4. For a page number of at least 1 and a page size of at least 1 (so for every size
  from 1 to 50), whatever the store, the category filter and the sort key:
  \<^verbatim>\<open>getPosts\<close> returns at most \<open>limit\<close> items; the total number of pages is the
  ceiling of the number of matching posts over \<open>limit\<close>; \<open>hasNext\<close> says that the page
  is before the last one, which is when posts remain after it; \<open>hasPrev\<close> says that the
  page is after the first; \<open>totalPosts\<close> is the number of matching posts; and the pages
  from 1 to the last, one after the other, are the filtered and sorted posts, each once.
\<close>

theorem getPosts_pagination:
  fixes st :: store and now :: int and q :: list_query and page limit :: int
  defines "pg \<equiv> \<lambda>k. getPosts st now (q\<lparr>q_page := Some k, q_limit := Some limit\<rparr>)"
      and "matching \<equiv> filtered_sorted st now (q_category q) (query_sort q)"
  assumes page: "1 \<le> page" and limit: "1 \<le> limit"
  shows "int (length (page_posts (pg page))) \<le> limit
       \<and> total (page_info (pg page))
           = Num \<lceil>real_of_int (int (length matching)) / real_of_int limit\<rceil>
       \<and> hasNext (page_info (pg page))
           = (page < \<lceil>real_of_int (int (length matching)) / real_of_int limit\<rceil>)
       \<and> hasNext (page_info (pg page)) = (page * limit < int (length matching))
       \<and> hasPrev (page_info (pg page)) = (1 < page)
       \<and> totalPosts (page_info (pg page)) = int (length matching)
       \<and> concat (map (\<lambda>k. page_posts (pg k))
             [1 .. \<lceil>real_of_int (int (length matching)) / real_of_int limit\<rceil>])
           = map sanitizePost matching"
proof -
  let ?n = "int (length matching)"
  let ?T = "\<lceil>real_of_int ?n / real_of_int limit\<rceil>"
  have pos: "0 < limit"
    using limit by simp
  have posts_of: "\<And>k. page_posts (pg k)
      = map sanitizePost (js_slice ((k - 1) * limit) ((k - 1) * limit + limit) matching)"
    by (simp add: pg_def matching_def getPosts_page_posts query_page_def query_limit_def
        query_sort_def)
  have info: "page_info (pg page)
      = \<lparr> current = page, total = Num ?T, hasNext = (page < ?T), hasPrev = (page > 1),
          totalPosts = ?n \<rparr>"
    using pos
    by (simp add: pg_def matching_def getPosts_page_info query_page_def query_limit_def
        query_sort_def totalPages_of_def js_less_def)
  have size: "int (length (page_posts (pg page))) \<le> limit"
  proof -
    have "0 \<le> (page - 1) * limit"
      using page pos by simp
    then show ?thesis
      using pos by (simp add: posts_of js_slice_length)
  qed
  have next_iff: "(page < ?T) = (page * limit < ?n)"
    using pos by (rule less_ceiling_pages)
  have T_nonneg: "0 \<le> ?T"
  proof -
    have "0 \<le> real_of_int ?n / real_of_int limit"
      using pos by (intro divide_nonneg_pos) simp_all
    then have "\<lceil>0 :: real\<rceil> \<le> ?T"
      by (rule ceiling_mono)
    then show ?thesis by simp
  qed
  obtain t where t: "?T = int t"
    using T_nonneg by (metis nat_0_le)
  have cover: "length matching \<le> t * nat limit"
  proof -
    have "?n \<le> ?T * limit"
      using pos by (rule pages_cover)
    also have "\<dots> = int (t * nat limit)"
      unfolding t using pos by simp
    finally show ?thesis
      by (simp only: of_nat_le_iff)
  qed
  have "concat (map (\<lambda>k. page_posts (pg k)) [1 .. ?T])
          = concat (map (\<lambda>k. map sanitizePost
               (js_slice ((k - 1) * limit) ((k - 1) * limit + limit) matching)) [1 .. int t])"
    by (simp only: posts_of t)
  also have "\<dots> = map sanitizePost
              (concat (map (\<lambda>k. js_slice ((k - 1) * limit) ((k - 1) * limit + limit) matching)
                 [1 .. int t]))"
    by (simp add: map_concat comp_def)
  also have "\<dots> = map sanitizePost (take (t * nat limit) matching)"
    using pos by (simp only: concat_pages)
  also have "\<dots> = map sanitizePost matching"
    using cover by simp
  finally have pages: "concat (map (\<lambda>k. page_posts (pg k)) [1 .. ?T]) = map sanitizePost matching" .
  show ?thesis
    using size pages next_iff by (simp add: info)
qed


lemma sample_board_sorted:
  "filtered_sorted sample_board 0 None ''timestamp''
     = [sample_post\<lparr>post_id := ''p3'', timestamp := 600\<rparr>, sample_post,
        sample_post\<lparr>post_id := ''p2'', timestamp := 300\<rparr>]"
  by (simp add: filtered_sorted_def sortPosts_def keeps_def sample_board_def new_store_def
      sample_post_fields sample_post_def)

text \<open>Three posts in pages of two: two pages, newest first.\<close>

theorem getPosts_pagination_witness:
  "(1 :: int) \<le> 1 \<and> (1 :: int) \<le> 2
   \<and> total (page_info (getPosts sample_board 0 (default_query\<lparr>q_page := Some 1, q_limit := Some 2\<rparr>)))
       = Num 2
   \<and> hasNext (page_info (getPosts sample_board 0 (default_query\<lparr>q_page := Some 1, q_limit := Some 2\<rparr>)))
   \<and> \<not> hasPrev (page_info (getPosts sample_board 0 (default_query\<lparr>q_page := Some 1, q_limit := Some 2\<rparr>)))
   \<and> totalPosts (page_info (getPosts sample_board 0 (default_query\<lparr>q_page := Some 1, q_limit := Some 2\<rparr>)))
       = 3
   \<and> page_posts (getPosts sample_board 0 (default_query\<lparr>q_page := Some 1, q_limit := Some 2\<rparr>))
       @ page_posts (getPosts sample_board 0 (default_query\<lparr>q_page := Some 2, q_limit := Some 2\<rparr>))
       = [sanitizePost (sample_post\<lparr>post_id := ''p3'', timestamp := 600\<rparr>),
          sanitizePost sample_post,
          sanitizePost (sample_post\<lparr>post_id := ''p2'', timestamp := 300\<rparr>)]"
  using getPosts_pagination [of 1 2 sample_board 0 default_query]
  by (simp add: sample_board_sorted default_query_def query_sort_def upto_rec1)

section \<open>Properties of the middleware\<close>

subsection \<open>The rate limiter\<close>



lemma rate_limit_at_cap:
  assumes "requests (H ip) = Some d" and "now - resetTime d \<le> w" and "m \<le> count d"
  shows "fst (createRateLimit w m msg H requests ip now)
           = TooMany msg \<lceil>real_of_int (w - (now - resetTime d)) / 1000\<rceil>"
    and "snd (createRateLimit w m msg H requests ip now) (H ip) = Some d"
  using assms by (auto simp: createRateLimit_def Let_def split: option.splits)





text \<open>
  A request that arrives exactly \<open>w\<close> milliseconds after the window started is still
  inside the window for the limiter: at the cap it is rejected, with 0 seconds to wait.
\<close>

theorem createRateLimit_boundary:
  assumes "requests (H ip) = Some d" and "now - resetTime d = w" and "m \<le> count d"
  shows "fst (createRateLimit w m msg H requests ip now) = TooMany msg 0"
  using rate_limit_at_cap [where requests = requests and H = H and ip = ip and d = d
      and now = now and w = w and m = m and msg = msg] assms
  by simp

theorem createRateLimit_boundary_witness:
  "fst (createRateLimit 300000 3 ''Too many posts'' sample_hash
          [sample_hash ''10.0.0.1'' \<mapsto> \<lparr> count = 3, resetTime = 0 \<rparr>] ''10.0.0.1'' 300000)
     = TooMany ''Too many posts'' 0"
  using createRateLimit_boundary [where H = sample_hash and ip = "''10.0.0.1''"
      and requests = "[sample_hash ''10.0.0.1'' \<mapsto> \<lparr> count = 3, resetTime = 0 \<rparr>]"
      and d = "\<lparr> count = 3, resetTime = 0 \<rparr>"
      and w = 300000 and now = 300000 and m = 3 and msg = "''Too many posts''"]
  by simp

subsection \<open>The content filter\<close>

lemmas char_classes = is_upper_def is_word_def is_space_def is_line_terminator_def lower_def

lemma phrase_lengths:
  "[Suc 0 ..< 21] = [1, 2, 3, 4, 5, 6, 7, 8, 9, 10, 11, 12, 13, 14, 15, 16, 17, 18, 19, 20]"
  by (simp add: upt_rec)

lemma replicate_4: "replicate 4 w = [w, w, w, w]"
  by (simp add: eval_nat_numeral)

lemma three_urls_repeated_chars:
  "\<not> search repeated_chars ''http://a.io http://b.io http://c.io''"
  by (simp add: repeated_chars_def char_classes)

lemma three_urls_multiple_urls:
  "\<not> search multiple_urls ''http://a.io http://b.io http://c.io''"
  by (simp add: multiple_urls_def url_head_def strip_prefix_def numeral_3_eq_3 char_classes)

lemma three_urls_all_caps:
  "\<not> search all_caps ''http://a.io http://b.io http://c.io''"
  by (simp add: all_caps_def char_classes)

lemma three_urls_repeated_phrase:
  "\<not> search repeated_phrase ''http://a.io http://b.io http://c.io''"
  by (simp add: repeated_phrase_def phrase_lengths Let_def char_classes replicate_4)

lemma three_urls_has_phrase:
  "\<not> has_phrase ''http://a.io http://b.io http://c.io''"
  by (simp add: has_phrase_def spam_phrases_def char_classes)

lemma three_urls_has_keyword:
  "\<not> has_keyword ''http://a.io http://b.io http://c.io''"
  by (simp add: has_keyword_def spam_keywords_def strip_prefix_def char_classes)

lemma links_not_spam: "\<not> checkSpam (Some ''Links'')"
  by (simp add: checkSpam_def repeated_chars_def multiple_urls_def url_head_def strip_prefix_def
      numeral_3_eq_3 all_caps_def repeated_phrase_def phrase_lengths Let_def replicate_4
      has_phrase_def spam_phrases_def has_keyword_def spam_keywords_def char_classes)

text \<open>
  C8 at a failing input: a body with three URLs separated by spaces passes the filter.
  The pattern for URLs wants three URLs in a row with no white space between them.
\<close>

theorem contentFilter_passes_three_urls:
  "contentFilter (Some ''Links'') (Some ''http://a.io http://b.io http://c.io'') = Continue"
  using links_not_spam three_urls_repeated_chars three_urls_multiple_urls three_urls_all_caps
    three_urls_repeated_phrase three_urls_has_phrase three_urls_has_keyword
  by (simp add: contentFilter_def checkSpam_def)

end
